theory Spec2Isabelle
  imports Complex_Main "HOL-Library.Word"
begin

section \<open>Values of the client\<close>

text \<open>
  The development follows \<^verbatim>\<open>app/src/components/ProgramControls.tsx\<close> (the React
  component holding every action of the client) and the instruction bytes built in
  \<^verbatim>\<open>tests/taxed-token-launchpad.ts\<close>.

  A public key is identified with its base58 text (\<^verbatim>\<open>toBase58()\<close>), a transaction
  signature is a string, and a thrown value is identified with the text the handlers
  print for it (\<^verbatim>\<open>e.message || e.toString()\<close>).
\<close>

type_synonym byte = "8 word"
type_synonym buffer = "byte list"
type_synonym pubkey = string
type_synonym signature = string
type_synonym exn = string

text \<open>
  A JavaScript \<^verbatim>\<open>number\<close>, as far as the component looks at it: \<^verbatim>\<open>NaN\<close>, a
  value that is an integer, or any other value (a fraction or an infinity), for which
  \<^verbatim>\<open>BigInt(n)\<close> throws a RangeError. Doubles hold only some of the integers above
  \<open>2^53\<close>; \<open>Integral\<close> admits them all.
\<close>

datatype number = NaN | Integral int | NonIntegral

text \<open>\<^verbatim>\<open>!amt\<close>: a number is falsy when it is \<^verbatim>\<open>NaN\<close> or zero.\<close>

fun falsy :: "number \<Rightarrow> bool" where
  "falsy NaN = True"
| "falsy (Integral n) = (n = 0)"
| "falsy NonIntegral = False"

text \<open>\<^verbatim>\<open>BigInt(n)\<close> of a number.\<close>

fun BigInt :: "number \<Rightarrow> exn + int" where
  "BigInt (Integral n) = Inr n"
| "BigInt NaN = Inl ''RangeError: The number NaN cannot be converted to a BigInt because it is not an integer''"
| "BigInt NonIntegral = Inl ''RangeError: The number cannot be converted to a BigInt because it is not an integer''"

section \<open>The instruction codec\<close>

text \<open>
  \<^verbatim>\<open>buf.writeBigUInt64LE(v)\<close> on a fresh 8-byte buffer: the bytes of \<open>v\<close>, least
  significant first. Node throws \<^verbatim>\<open>ERR_OUT_OF_RANGE\<close> unless \<open>0 \<le> v < 2^64\<close>.
\<close>

fun le_bytes :: "nat \<Rightarrow> int \<Rightarrow> buffer" where
  "le_bytes 0 v = []"
| "le_bytes (Suc k) v = word_of_int v # le_bytes k (v div 256)"

definition writeBigUInt64LE :: "int \<Rightarrow> exn + buffer" where
  "writeBigUInt64LE v =
     (if 0 \<le> v \<and> v < 2 ^ 64 then Inr (le_bytes 8 v)
      else Inl ''RangeError [ERR_OUT_OF_RANGE]: The value of \"value\" is out of range.'')"

text \<open>
  \<^verbatim>\<open>function u64ToBufferLE(n: number | bigint) { const buf = Buffer.alloc(8);
  buf.writeBigUInt64LE(BigInt(n)); return buf }\<close>
\<close>

definition u64ToBufferLE :: "number \<Rightarrow> exn + buffer" where
  "u64ToBufferLE n = (case BigInt n of Inl e \<Rightarrow> Inl e | Inr v \<Rightarrow> writeBigUInt64LE v)"

text \<open>
  The data of a TransferCheckedWithFee instruction, as both call sites build it:
  \<^verbatim>\<open>Buffer.concat([Buffer.from([26, 1]), u64ToBufferLE(amount),
  Buffer.from([decimals]), u64ToBufferLE(fee)])\<close>. \<^verbatim>\<open>Buffer.from([d])\<close> keeps the low
  eight bits of \<open>d\<close>. The test passes its \<^verbatim>\<open>transferAmount\<close>, \<^verbatim>\<open>decimals\<close> and
  \<^verbatim>\<open>fee\<close>; the component passes \<^verbatim>\<open>amt\<close>, the constant 6 and the constant 0.
\<close>

definition transferCheckedWithFeeData :: "number \<Rightarrow> int \<Rightarrow> number \<Rightarrow> exn + buffer" where
  "transferCheckedWithFeeData amount decimals fee =
     (case u64ToBufferLE amount of
        Inl e \<Rightarrow> Inl e
      | Inr amountBytes \<Rightarrow>
          (case u64ToBufferLE fee of
             Inl e \<Rightarrow> Inl e
           | Inr feeBytes \<Rightarrow> Inr ([26, 1] @ amountBytes @ [word_of_int decimals] @ feeBytes)))"

text \<open>Reading a little-endian unsigned integer back from its bytes.\<close>

fun readUIntLE :: "buffer \<Rightarrow> int" where
  "readUIntLE [] = 0"
| "readUIntLE (b # bs) = uint b + 256 * readUIntLE bs"

subsection \<open>The fee of the test, in double precision\<close>

text \<open>
  The test computes its fee as \<^verbatim>\<open>Math.ceil((transferAmount * transferFeeBps) / 10000)\<close>
  on JavaScript numbers, which are IEEE 754 doubles: the product and the quotient are
  each rounded to the nearest double (53 significant bits, ties to the even
  significand), and a magnitude that rounds to \<open>2^1024\<close> or more is infinite. Both
  operands are integers, so the only value that is not an integer is the quotient.
\<close>

function bitLength :: "int \<Rightarrow> int" where
  "bitLength n = (if n \<le> 0 then 0 else 1 + bitLength (n div 2))"
  by pat_completeness auto
termination
  by (relation "measure nat") simp_all

text \<open>\<open>scale x k\<close> is \<open>x * 2^k\<close> for \<open>k \<ge> 0\<close>, and \<open>x\<close> otherwise.\<close>

definition scale :: "int \<Rightarrow> int \<Rightarrow> int" where
  "scale x k = (if 0 \<le> k then x * 2 ^ nat k else x)"

text \<open>
  The double nearest to \<open>n / d\<close> for positive \<open>n\<close> and \<open>d\<close>, as a significand \<open>m\<close>
  and an exponent \<open>k\<close>: the double is \<open>m * 2^k\<close>. Here \<open>e\<close> is the exponent of
  \<open>n / d\<close> (\<open>2^e \<le> n / d < 2^(e + 1)\<close>), the unit in the last place is \<open>2^(e - 52)\<close>
  but not less than \<open>2^-1074\<close>, and \<open>n / d\<close> is \<open>(num / den) * 2^k\<close>.
\<close>

definition nearest :: "int \<Rightarrow> int \<Rightarrow> int \<times> int" where
  "nearest n d =
     (let e0 = bitLength n - bitLength d;
          e = (if scale d e0 \<le> scale n (- e0) then e0 else e0 - 1);
          k = max (e - 52) (- 1074);
          num = scale n (- k);
          den = scale d k;
          q = num div den;
          r = num mod den;
          m = (if 2 * r < den then q
               else if den < 2 * r then q + 1
               else if even q then q else q + 1)
      in (m, k))"

text \<open>The double nearest to an integer, which is an integer; \<open>None\<close> is an infinity.\<close>

definition toDouble :: "int \<Rightarrow> int option" where
  "toDouble i =
     (if i = 0 then Some 0
      else
        (let (m, k) = nearest \<bar>i\<bar> 1;
             v = (if 0 \<le> k then m * 2 ^ nat k else m div 2 ^ nat (- k))
         in if 2 ^ 1024 \<le> v then None else Some (sgn i * v)))"

text \<open>
  \<^verbatim>\<open>Math.ceil(p / d)\<close> for a finite double \<open>p\<close> that is an integer and a positive
  integer \<open>d\<close>: the quotient is rounded to the nearest double first.
\<close>

definition ceilOfQuotient :: "int \<Rightarrow> int \<Rightarrow> int" where
  "ceilOfQuotient p d =
     (if p = 0 then 0
      else
        (let (m, k) = nearest \<bar>p\<bar> d
         in if 0 < p then
              (if 0 \<le> k then m * 2 ^ nat k else - ((- m) div 2 ^ nat (- k)))
            else
              (if 0 \<le> k then - (m * 2 ^ nat k) else - (m div 2 ^ nat (- k)))))"

text \<open>
  The fee of the test for the integers its two constants denote. A literal too large
  for a double is an infinity; an infinity times zero is \<^verbatim>\<open>NaN\<close>.
\<close>

definition testFee :: "int \<Rightarrow> int \<Rightarrow> number" where
  "testFee transferAmount transferFeeBps =
     (case toDouble transferAmount of
        None \<Rightarrow>
          (case toDouble transferFeeBps of
             None \<Rightarrow> NonIntegral
           | Some y \<Rightarrow> if y = 0 then NaN else NonIntegral)
      | Some x \<Rightarrow>
          (case toDouble transferFeeBps of
             None \<Rightarrow> if x = 0 then NaN else NonIntegral
           | Some y \<Rightarrow>
               (case toDouble (x * y) of
                  None \<Rightarrow> NonIntegral
                | Some p \<Rightarrow> Integral (ceilOfQuotient p 10000))))"

section \<open>Strings\<close>

text \<open>
  \<^verbatim>\<open>String.prototype.trim\<close>, for the white space of ASCII (space, tab, line feed,
  vertical tab, form feed, carriage return).
\<close>

definition isSpace :: "char \<Rightarrow> bool" where
  "isSpace c = (c \<in> set [CHR '' '', CHR 0x09, CHR 0x0A, CHR 0x0B, CHR 0x0C, CHR 0x0D])"

definition trim :: "string \<Rightarrow> string" where
  "trim str = rev (dropWhile isSpace (rev (dropWhile isSpace str)))"

text \<open>The decimal text of a bigint (\<^verbatim>\<open>toString()\<close>, and string concatenation).\<close>

fun showNat :: "nat \<Rightarrow> string" where
  "showNat n =
     (if n < 10 then [char_of (48 + n)] else showNat (n div 10) @ [char_of (48 + n mod 10)])"

definition showInt :: "int \<Rightarrow> string" where
  "showInt i = (if i < 0 then CHR ''-'' # showNat (nat (- i)) else showNat (nat i))"

section \<open>Instructions, calls and the outside world\<close>

text \<open>
  An entry of \<^verbatim>\<open>keys\<close> of a \<^verbatim>\<open>TransactionInstruction\<close>. The handlers pass
  \<^verbatim>\<open>selectedMint!\<close> and \<^verbatim>\<open>wallet.publicKey!\<close>, which TypeScript does not check
  at run time, so a key may be \<^verbatim>\<open>null\<close>.
\<close>

record accountMeta =
  pubkey :: "pubkey option"
  isSigner :: bool
  isWritable :: bool

text \<open>
  The instructions the component puts into a transaction. The builders of
  \<^verbatim>\<open>@solana/spl-token\<close> are taken to return the instruction they are asked for:
  \<^verbatim>\<open>createAssociatedTokenAccountInstruction(payer, associatedToken, owner, mint, ...)\<close>,
  \<^verbatim>\<open>createMintToInstruction(mint, destination, authority, amount, ...)\<close> and
  \<^verbatim>\<open>withdrawWithheldTokensFromMint(mint, destination, authority)\<close> as the component
  calls it; \<^verbatim>\<open>new TransactionInstruction({programId: TOKEN_2022_PROGRAM_ID, keys, data})\<close>
  is the hand-built one.
\<close>

datatype instruction =
    CreateAssociatedTokenAccount "pubkey option" pubkey pubkey "pubkey option"
  | MintTo pubkey pubkey pubkey int
  | WithdrawWithheldTokensFromMint pubkey pubkey "pubkey option"
  | TransactionInstruction "accountMeta list" buffer

text \<open>
  The two methods of the launchpad program the component calls through Anchor, with
  their arguments (decimals, fee basis points, maximum fee), the wallet's key that is
  passed for the payer and every authority, and the fresh mint that also signs.
\<close>

datatype methodCall =
    CreateTaxedTokenCall int int int "pubkey option" pubkey
  | CreateSoulboundTokenCall int "pubkey option" pubkey

text \<open>
  Every step of a handler that can throw is recorded, in order. The first four are
  local: \<^verbatim>\<open>BigInt(amount ?? mintAmount)\<close>, the building of the transfer data from the
  amount (\<^verbatim>\<open>u64ToBufferLE(amt)\<close> inside \<^verbatim>\<open>Buffer.concat\<close>), \<^verbatim>\<open>new PublicKey(v)\<close>
  and the address derivation. The others go to the network.
\<close>

datatype call =
    ToBigInt number
  | EncodeData number
  | NewPublicKey string
  | GetAssociatedTokenAddress "pubkey option" "pubkey option"
  | GetAccountInfo pubkey
  | GetAccount pubkey
  | Rpc methodCall
  | SendTransaction "instruction list"
  | ConfirmTransaction signature

fun network :: "call \<Rightarrow> bool" where
  "network (ToBigInt n) = False"
| "network (EncodeData n) = False"
| "network (NewPublicKey v) = False"
| "network (GetAssociatedTokenAddress m p) = False"
| "network (GetAccountInfo a) = True"
| "network (GetAccount a) = True"
| "network (Rpc c) = True"
| "network (SendTransaction tx) = True"
| "network (ConfirmTransaction sg) = True"

text \<open>The instructions handed to \<^verbatim>\<open>wallet.sendTransaction\<close> by a list of calls.\<close>

fun submitted :: "call list \<Rightarrow> instruction list" where
  "submitted [] = []"
| "submitted (SendTransaction tx # cs) = tx @ submitted cs"
| "submitted (c # cs) = submitted cs"

text \<open>
  What \<^verbatim>\<open>getAccount\<close> returns, as far as the component reads it: \<^verbatim>\<open>acc.amount\<close>
  and \<^verbatim>\<open>acc.extensions?.transferFeeAmount?.withheldAmount\<close> (\<open>None\<close> when the chain
  of optional fields is undefined).
\<close>

record tokenAccount =
  acctAmount :: nat
  withheldAmount :: "nat option"

text \<open>\<^verbatim>\<open>withheldAmount || 0\<close>, as it is printed.\<close>

definition withheldText :: "tokenAccount \<Rightarrow> string" where
  "withheldText acc = (case withheldAmount acc of None \<Rightarrow> ''0'' | Some n \<Rightarrow> showNat n)"

text \<open>
  The wallet adapter (\<^verbatim>\<open>useWallet()\<close>) and everything else outside the component:
  the answers of the libraries, of the connection and of the JavaScript run time.
  \<open>Inl\<close> is a thrown value or a rejected promise. \<^verbatim>\<open>getAccountInfo\<close> resolves to
  \<^verbatim>\<open>null\<close> (\<open>None\<close>) when there is no account at the address.
\<close>

record wallet =
  publicKey :: "pubkey option"
  connected :: bool

record world =
  programId :: string
  keypairGenerate :: pubkey
  Number :: "string \<Rightarrow> number"
  newPublicKey :: "string \<Rightarrow> exn + pubkey"
  getAssociatedTokenAddress :: "pubkey \<Rightarrow> pubkey \<Rightarrow> exn + pubkey"
  getAccountInfo :: "pubkey \<Rightarrow> exn + buffer option"
  getAccount :: "pubkey \<Rightarrow> exn + tokenAccount"
  rpc :: "methodCall \<Rightarrow> exn + signature"
  sendTransaction :: "instruction list \<Rightarrow> exn + signature"
  confirmTransaction :: "signature \<Rightarrow> exn + unit"

section \<open>The state of the component and its programs\<close>

text \<open>
  The \<^verbatim>\<open>useState\<close> cells of \<^verbatim>\<open>ProgramControls\<close>, and the calls made so far (oldest
  first), which the component itself does not keep.
\<close>

record state =
  logs :: "string list"
  selectedMint :: "pubkey option"
  payerAta :: "pubkey option"
  payerBalance :: string
  mintAmount :: number
  calls :: "call list"

definition initialState :: state where
  "initialState = \<lparr>logs = [], selectedMint = None, payerAta = None, payerBalance = ''0'',
     mintAmount = Integral 1000000, calls = []\<rparr>"

text \<open>
  A handler is a program over the state: it ends with a value or with a thrown value,
  and leaves a state either way.
\<close>

type_synonym 'a prog = "state \<Rightarrow> (exn + 'a) \<times> state"

definition ret :: "'a \<Rightarrow> 'a prog" where
  "ret x s = (Inr x, s)"

definition bind :: "'a prog \<Rightarrow> ('a \<Rightarrow> 'b prog) \<Rightarrow> 'b prog" where
  "bind m f s = (case m s of (Inl e, s') \<Rightarrow> (Inl e, s') | (Inr x, s') \<Rightarrow> f x s')"

text \<open>\<^verbatim>\<open>try { m } catch (e) { h(e) }\<close>\<close>

definition catch :: "unit prog \<Rightarrow> (exn \<Rightarrow> unit prog) \<Rightarrow> unit prog" where
  "catch m h s = (case m s of (Inl e, s') \<Rightarrow> h e s' | (Inr x, s') \<Rightarrow> (Inr x, s'))"

text \<open>Reading a cell of the state.\<close>

definition gets :: "(state \<Rightarrow> 'a) \<Rightarrow> 'a prog" where
  "gets f s = (Inr (f s), s)"

text \<open>A step that can throw: it is recorded, and its answer is its result.\<close>

definition await :: "call \<Rightarrow> exn + 'a \<Rightarrow> 'a prog" where
  "await c r s = (r, s\<lparr>calls := calls s @ [c]\<rparr>)"

text \<open>\<^verbatim>\<open>const pushLog = (s: string) => setLogs((l) => [s, ...l].slice(0, 20))\<close>\<close>

definition pushLog :: "string \<Rightarrow> unit prog" where
  "pushLog str s = (Inr (), s\<lparr>logs := take 20 (str # logs s)\<rparr>)"

definition setSelectedMint :: "pubkey \<Rightarrow> unit prog" where
  "setSelectedMint m s = (Inr (), s\<lparr>selectedMint := Some m\<rparr>)"

definition setPayerAta :: "pubkey \<Rightarrow> unit prog" where
  "setPayerAta a s = (Inr (), s\<lparr>payerAta := Some a\<rparr>)"

definition setPayerBalance :: "string \<Rightarrow> unit prog" where
  "setPayerBalance b s = (Inr (), s\<lparr>payerBalance := b\<rparr>)"

definition setMintAmount :: "number \<Rightarrow> unit prog" where
  "setMintAmount n s = (Inr (), s\<lparr>mintAmount := n\<rparr>)"

text \<open>
  The calls. The address derivation reads \<^verbatim>\<open>mint.toBuffer()\<close> and
  \<^verbatim>\<open>owner.toBuffer()\<close>, so a \<^verbatim>\<open>null\<close> argument is a TypeError.
\<close>

definition callBigInt :: "number \<Rightarrow> int prog" where
  "callBigInt n = await (ToBigInt n) (BigInt n)"

definition callEncodeData :: "number \<Rightarrow> buffer prog" where
  "callEncodeData amt = await (EncodeData amt) (transferCheckedWithFeeData amt 6 (Integral 0))"

definition callNewPublicKey :: "world \<Rightarrow> string \<Rightarrow> pubkey prog" where
  "callNewPublicKey w v = await (NewPublicKey v) (newPublicKey w v)"

definition callGetAssociatedTokenAddress ::
    "world \<Rightarrow> pubkey option \<Rightarrow> pubkey option \<Rightarrow> pubkey prog" where
  "callGetAssociatedTokenAddress w mint owner =
     await (GetAssociatedTokenAddress mint owner)
       (case mint of
          None \<Rightarrow> Inl ''TypeError: Cannot read properties of null''
        | Some m \<Rightarrow>
            (case owner of
               None \<Rightarrow> Inl ''TypeError: Cannot read properties of null''
             | Some p \<Rightarrow> getAssociatedTokenAddress w m p))"

definition callGetAccountInfo :: "world \<Rightarrow> pubkey \<Rightarrow> buffer option prog" where
  "callGetAccountInfo w a = await (GetAccountInfo a) (getAccountInfo w a)"

definition callGetAccount :: "world \<Rightarrow> pubkey \<Rightarrow> tokenAccount prog" where
  "callGetAccount w a = await (GetAccount a) (getAccount w a)"

definition callRpc :: "world \<Rightarrow> methodCall \<Rightarrow> signature prog" where
  "callRpc w c = await (Rpc c) (rpc w c)"

definition callSendTransaction :: "world \<Rightarrow> instruction list \<Rightarrow> signature prog" where
  "callSendTransaction w tx = await (SendTransaction tx) (sendTransaction w tx)"

definition callConfirmTransaction :: "world \<Rightarrow> signature \<Rightarrow> unit prog" where
  "callConfirmTransaction w sg = await (ConfirmTransaction sg) (confirmTransaction w sg)"

section \<open>The handlers\<close>

text \<open>
  \<^verbatim>\<open>loadProgram\<close> returns the Anchor program, or \<^verbatim>\<open>null\<close> when the wallet has no
  public key.
\<close>

definition loadProgram :: "world \<Rightarrow> wallet \<Rightarrow> unit option prog" where
  "loadProgram w wal =
     (case publicKey wal of
        None \<Rightarrow> bind (pushLog ''Wallet not connected'') (\<lambda>_. ret None)
      | Some pk \<Rightarrow> bind (pushLog (''Program loaded: '' @ programId w)) (\<lambda>_. ret (Some ())))"

definition createTaxedToken :: "world \<Rightarrow> wallet \<Rightarrow> unit prog" where
  "createTaxedToken w wal =
     bind (loadProgram w wal) (\<lambda>program.
       case program of
         None \<Rightarrow> ret ()
       | Some _ \<Rightarrow>
           (let mint = keypairGenerate w;
                decimals = 6;
                transferFeeBps = 100;
                maximumFee = 1000000
            in bind (pushLog (''Creating taxed token, mint: '' @ mint)) (\<lambda>_.
               catch
                 (bind (callRpc w (CreateTaxedTokenCall decimals transferFeeBps maximumFee
                                     (publicKey wal) mint)) (\<lambda>sg.
                  bind (pushLog (''createTaxedToken succeeded: '' @ sg)) (\<lambda>_.
                  setSelectedMint mint)))
                 (\<lambda>e. pushLog (''createTaxedToken failed: '' @ e)))))"

definition createSoulboundToken :: "world \<Rightarrow> wallet \<Rightarrow> unit prog" where
  "createSoulboundToken w wal =
     bind (loadProgram w wal) (\<lambda>program.
       case program of
         None \<Rightarrow> ret ()
       | Some _ \<Rightarrow>
           (let mint = keypairGenerate w;
                decimals = 6
            in bind (pushLog (''Creating soulbound token, mint: '' @ mint)) (\<lambda>_.
               catch
                 (bind (callRpc w (CreateSoulboundTokenCall decimals (publicKey wal) mint)) (\<lambda>sg.
                  bind (pushLog (''createSoulboundToken succeeded: '' @ sg)) (\<lambda>_.
                  setSelectedMint mint)))
                 (\<lambda>e. pushLog (''createSoulboundToken failed: '' @ e)))))"

definition createPayerAta :: "world \<Rightarrow> wallet \<Rightarrow> unit prog" where
  "createPayerAta w wal =
     bind (gets selectedMint) (\<lambda>sm.
       case sm of
         None \<Rightarrow> pushLog ''No mint selected''
       | Some mint \<Rightarrow>
           (case publicKey wal of
              None \<Rightarrow> pushLog ''Wallet not connected''
            | Some pk \<Rightarrow>
                catch
                  (bind (callGetAssociatedTokenAddress w (Some mint) (Some pk)) (\<lambda>ata.
                   bind (callGetAccountInfo w ata) (\<lambda>info.
                     case info of
                       Some _ \<Rightarrow>
                         bind (pushLog (''Payer ATA already exists: '' @ ata)) (\<lambda>_.
                         setPayerAta ata)
                     | None \<Rightarrow>
                         (let ix = CreateAssociatedTokenAccount (Some pk) ata pk (Some mint)
                          in bind (callSendTransaction w [ix]) (\<lambda>sg.
                             bind (callConfirmTransaction w sg) (\<lambda>_.
                             bind (pushLog (''Created payer ATA: '' @ ata @ '' ('' @ sg @ '')'')) (\<lambda>_.
                             setPayerAta ata)))))))
                  (\<lambda>e. pushLog (''createPayerAta failed: '' @ e))))"

text \<open>
  \<^verbatim>\<open>mintToPayer(amount?)\<close>; the button calls it with no argument, so the amount is
  \<^verbatim>\<open>mintAmount\<close>. \<^verbatim>\<open>BigInt(amount ?? mintAmount)\<close> stands before the \<^verbatim>\<open>try\<close>: what it
  throws leaves the handler.
\<close>

definition mintToPayer :: "world \<Rightarrow> wallet \<Rightarrow> number option \<Rightarrow> unit prog" where
  "mintToPayer w wal amount =
     bind (gets selectedMint) (\<lambda>sm.
     bind (gets payerAta) (\<lambda>pa.
       case sm of
         None \<Rightarrow> pushLog ''Missing mint or payer ATA''
       | Some mint \<Rightarrow>
           (case pa of
              None \<Rightarrow> pushLog ''Missing mint or payer ATA''
            | Some ata \<Rightarrow>
                (case publicKey wal of
                   None \<Rightarrow> pushLog ''Wallet not connected''
                 | Some pk \<Rightarrow>
                     bind (gets mintAmount) (\<lambda>dflt.
                     bind (callBigInt (case amount of None \<Rightarrow> dflt | Some a \<Rightarrow> a)) (\<lambda>amt.
                       catch
                         (let ix = MintTo mint ata pk amt
                          in bind (callSendTransaction w [ix]) (\<lambda>sg.
                             bind (callConfirmTransaction w sg) (\<lambda>_.
                             pushLog (''mintTo succeeded: '' @ sg @ '' amount: '' @ showInt amt))))
                         (\<lambda>e. pushLog (''mintTo failed: '' @ e))))))))"

definition refreshPayerBalance :: "world \<Rightarrow> unit prog" where
  "refreshPayerBalance w =
     bind (gets payerAta) (\<lambda>pa.
       case pa of
         None \<Rightarrow> pushLog ''No payer ATA''
       | Some ata \<Rightarrow>
           catch
             (bind (callGetAccount w ata) (\<lambda>acc.
                let amount = showNat (acctAmount acc)
                in bind (setPayerBalance amount) (\<lambda>_.
                   pushLog (''Payer ATA balance: '' @ amount @ '' withheld: '' @ withheldText acc))))
             (\<lambda>e. pushLog (''refreshPayerBalance failed: '' @ e)))"

text \<open>
  The four handlers written in the buttons of the recipient controls; each is named
  after the words of its failure message. Their arguments are the values of the input
  fields they read.
\<close>

definition createRecipientAta :: "world \<Rightarrow> wallet \<Rightarrow> string \<Rightarrow> unit prog" where
  "createRecipientAta w wal recipientPubkey =
     (let v = trim recipientPubkey
      in if v = [] then pushLog ''Enter recipient public key''
         else
           catch
             (bind (callNewPublicKey w v) (\<lambda>pk.
              bind (gets selectedMint) (\<lambda>sm.
              bind (callGetAssociatedTokenAddress w sm (Some pk)) (\<lambda>ata.
              bind (callGetAccountInfo w ata) (\<lambda>info.
                case info of
                  Some _ \<Rightarrow> pushLog (''Recipient ATA exists: '' @ ata)
                | None \<Rightarrow>
                    (let ix = CreateAssociatedTokenAccount (publicKey wal) ata pk sm
                     in bind (callSendTransaction w [ix]) (\<lambda>sg.
                        bind (callConfirmTransaction w sg) (\<lambda>_.
                        pushLog (''Created recipient ATA: '' @ ata @ '' ('' @ sg @ '')'')))))))))
             (\<lambda>e. pushLog (''createRecipientAta failed: '' @ e)))"

definition transferWithFee :: "world \<Rightarrow> wallet \<Rightarrow> string \<Rightarrow> string \<Rightarrow> unit prog" where
  "transferWithFee w wal recipientPubkey2 transferAmount =
     catch
       (let v = trim recipientPubkey2;
            amt = Number w (if transferAmount = [] then ''0'' else transferAmount)
        in if v = [] \<or> falsy amt then pushLog ''Provide recipient and amount''
           else
             bind (callNewPublicKey w v) (\<lambda>recipientPk.
             bind (gets selectedMint) (\<lambda>sm.
             bind (callGetAssociatedTokenAddress w sm (Some recipientPk)) (\<lambda>recipientAta.
             bind (callEncodeData amt) (\<lambda>data.
             bind (callGetAssociatedTokenAddress w sm (publicKey wal)) (\<lambda>payerAtaLocal.
               let ix = TransactionInstruction
                          [\<lparr>pubkey = Some payerAtaLocal, isSigner = False, isWritable = True\<rparr>,
                           \<lparr>pubkey = sm, isSigner = False, isWritable = False\<rparr>,
                           \<lparr>pubkey = Some recipientAta, isSigner = False, isWritable = True\<rparr>,
                           \<lparr>pubkey = publicKey wal, isSigner = True, isWritable = False\<rparr>]
                          data
               in bind (callSendTransaction w [ix]) (\<lambda>sg.
                  bind (callConfirmTransaction w sg) (\<lambda>_.
                  pushLog (''TransferWithFee succeeded: '' @ sg)))))))))
       (\<lambda>e. pushLog (''transferWithFee failed: '' @ e))"

definition inspectRecipient :: "world \<Rightarrow> string \<Rightarrow> unit prog" where
  "inspectRecipient w recipientPubkey3 =
     catch
       (let v = trim recipientPubkey3
        in if v = [] then pushLog ''Enter recipient public key''
           else
             bind (callNewPublicKey w v) (\<lambda>pk.
             bind (gets selectedMint) (\<lambda>sm.
             bind (callGetAssociatedTokenAddress w sm (Some pk)) (\<lambda>ata.
             bind (callGetAccount w ata) (\<lambda>acc.
             pushLog (''Recipient ATA '' @ ata @ '' balance: '' @ showNat (acctAmount acc)
                        @ '' withheld: '' @ withheldText acc))))))
       (\<lambda>e. pushLog (''inspectRecipient failed: '' @ e))"

definition withdrawWithheld :: "world \<Rightarrow> wallet \<Rightarrow> string \<Rightarrow> unit prog" where
  "withdrawWithheld w wal withdrawDest =
     catch
       (bind (gets selectedMint) (\<lambda>sm.
          case sm of
            None \<Rightarrow> pushLog ''No mint selected''
          | Some mint \<Rightarrow>
              (let v = trim withdrawDest
               in if v = [] then pushLog ''Enter destination ATA pubkey''
                  else
                    bind (callNewPublicKey w v) (\<lambda>dest.
                    bind (callGetAssociatedTokenAddress w sm (publicKey wal)) (\<lambda>payerAtaLocal.
                      let ix = WithdrawWithheldTokensFromMint mint dest (publicKey wal)
                      in bind (callSendTransaction w [ix]) (\<lambda>sg.
                         bind (callConfirmTransaction w sg) (\<lambda>_.
                         pushLog (''withdrawWithheld succeeded: '' @ sg))))))))
       (\<lambda>e. pushLog (''withdrawWithheld failed: '' @ e))"

section \<open>The buttons\<close>

text \<open>
  What the user can do: press one of the buttons (with the values of the input fields
  the handler reads), or edit the mint amount
  (\<^verbatim>\<open>onChange={(e) => setMintAmount(Number(e.target.value))}\<close>).
\<close>

datatype action =
    LoadProgram
  | CreateTaxedToken
  | CreateSoulboundToken
  | CreatePayerAta
  | ChangeMintAmount string
  | MintToPayer
  | RefreshPayerBalance
  | CreateRecipientAta string
  | TransferWithFee string string
  | InspectRecipient string
  | WithdrawWithheld string

fun handle :: "world \<Rightarrow> wallet \<Rightarrow> action \<Rightarrow> unit prog" where
  "handle w wal LoadProgram = bind (loadProgram w wal) (\<lambda>_. ret ())"
| "handle w wal CreateTaxedToken = createTaxedToken w wal"
| "handle w wal CreateSoulboundToken = createSoulboundToken w wal"
| "handle w wal CreatePayerAta = createPayerAta w wal"
| "handle w wal (ChangeMintAmount v) = setMintAmount (Number w v)"
| "handle w wal MintToPayer = mintToPayer w wal None"
| "handle w wal RefreshPayerBalance = refreshPayerBalance w"
| "handle w wal (CreateRecipientAta v) = createRecipientAta w wal v"
| "handle w wal (TransferWithFee v a) = transferWithFee w wal v a"
| "handle w wal (InspectRecipient v) = inspectRecipient w v"
| "handle w wal (WithdrawWithheld v) = withdrawWithheld w wal v"

text \<open>The \<^verbatim>\<open>disabled\<close> attribute of each button; a disabled button runs no handler.\<close>

fun disabled :: "wallet \<Rightarrow> state \<Rightarrow> action \<Rightarrow> bool" where
  "disabled wal s LoadProgram = False"
| "disabled wal s CreateTaxedToken = (\<not> connected wal)"
| "disabled wal s CreateSoulboundToken = (\<not> connected wal)"
| "disabled wal s CreatePayerAta = (selectedMint s = None \<or> \<not> connected wal)"
| "disabled wal s (ChangeMintAmount v) = False"
| "disabled wal s MintToPayer = (payerAta s = None \<or> \<not> connected wal)"
| "disabled wal s RefreshPayerBalance = (payerAta s = None)"
| "disabled wal s (CreateRecipientAta v) = (selectedMint s = None \<or> \<not> connected wal)"
| "disabled wal s (TransferWithFee v a) = (selectedMint s = None \<or> \<not> connected wal)"
| "disabled wal s (InspectRecipient v) = (selectedMint s = None \<or> \<not> connected wal)"
| "disabled wal s (WithdrawWithheld v) = (selectedMint s = None \<or> \<not> connected wal)"

definition click :: "world \<Rightarrow> wallet \<Rightarrow> action \<Rightarrow> unit prog" where
  "click w wal a s = (if disabled wal s a then (Inr (), s) else handle w wal a s)"

text \<open>
  A session: the actions in order, each with the wallet and the world as they are at
  that moment. What a handler throws is lost (nothing awaits the promise).
\<close>

fun session :: "(world \<times> wallet \<times> action) list \<Rightarrow> state \<Rightarrow> state" where
  "session [] s = s"
| "session ((w, wal, a) # rest) s = session rest (snd (click w wal a s))"

section \<open>Observations on a run\<close>


definition newCalls :: "state \<Rightarrow> state \<Rightarrow> call list" where
  "newCalls s s' = drop (length (calls s)) (calls s')"








text \<open>A sequence of log writes, the oldest first.\<close>

fun pushLogs :: "string list \<Rightarrow> state \<Rightarrow> state" where
  "pushLogs [] s = s"
| "pushLogs (str # strs) s = pushLogs strs (snd (pushLog str s))"

text \<open>Two states that differ at most in their logs, and programs that cannot tell.\<close>

definition sameButLogs :: "state \<Rightarrow> state \<Rightarrow> bool" where
  "sameButLogs s t = (s\<lparr>logs := []\<rparr> = t\<lparr>logs := []\<rparr>)"

definition logfree :: "'a prog \<Rightarrow> bool" where
  "logfree m =
     (\<forall>s t. sameButLogs s t \<longrightarrow> fst (m s) = fst (m t) \<and> sameButLogs (snd (m s)) (snd (m t)))"

text \<open>Programs that keep the log within its bound.\<close>

definition keepsBound :: "'a prog \<Rightarrow> bool" where
  "keepsBound m = (\<forall>s. length (logs s) \<le> 20 \<longrightarrow> length (logs (snd (m s))) \<le> 20)"

section \<open>A concrete world\<close>

text \<open>
  A wallet and a world to run the handlers in: every call succeeds, no account exists
  yet, and only the texts \<^verbatim>\<open>0\<close> and \<^verbatim>\<open>100000\<close> are numbers.
\<close>

definition exampleWallet :: wallet where
  "exampleWallet = \<lparr>publicKey = Some ''Payer'', connected = True\<rparr>"

definition noWallet :: wallet where
  "noWallet = \<lparr>publicKey = None, connected = False\<rparr>"

definition exampleWorld :: world where
  "exampleWorld =
     \<lparr>programId = ''Launchpad'',
      keypairGenerate = ''Mint'',
      Number = (\<lambda>v. if v = ''0'' then Integral 0
                     else if v = ''100000'' then Integral 100000 else NaN),
      newPublicKey = (\<lambda>v. Inr v),
      getAssociatedTokenAddress = (\<lambda>m p. Inr (m @ ''/'' @ p)),
      getAccountInfo = (\<lambda>a. Inr None),
      getAccount = (\<lambda>a. Inl ''TokenAccountNotFoundError''),
      rpc = (\<lambda>c. Inr ''sig1''),
      sendTransaction = (\<lambda>tx. Inr ''sig2''),
      confirmTransaction = (\<lambda>sg. Inr ())\<rparr>"

text \<open>
  States and worlds for the runs below: a mint is selected; the payer's account is
  recorded as well; every queried account exists; the network is down.
\<close>

definition mintSelected :: state where
  "mintSelected = initialState\<lparr>selectedMint := Some ''Mint''\<rparr>"

definition accountReady :: state where
  "accountReady = mintSelected\<lparr>payerAta := Some ''Mint/Payer''\<rparr>"

definition accountsExist :: world where
  "accountsExist = exampleWorld\<lparr>getAccountInfo := (\<lambda>a. Inr (Some []))\<rparr>"

definition offline :: world where
  "offline = exampleWorld\<lparr>getAccountInfo := (\<lambda>a. Inl ''failed to fetch''),
     rpc := (\<lambda>c. Inl ''failed to fetch''),
     sendTransaction := (\<lambda>tx. Inl ''failed to fetch'')\<rparr>"

section \<open>The token program\<close>

text \<open>
  Modelled from the spec: the token program's processing of a mint-to and of a
  transfer-checked-with-fee instruction; the program is not among the sources. The spec
  (sections 3, 4.1 and 4.3) gives the fee as \<open>min(maximumFee, ceil(amount * feeBps / 10000))\<close>,
  the destination's net amount as amount minus fee, the fee as withheld on the
  recipient's side, the decimals as those of the mint, and a supplied fee that differs
  from the recomputed one as a failure of the operation.
\<close>

record mintConfig =
  mintDecimals :: int
  feeBps :: int
  maximumFee :: int

record holding =
  balance :: int
  withheld :: int

definition requiredFee :: "mintConfig \<Rightarrow> int \<Rightarrow> int" where
  "requiredFee cfg amount =
     min (maximumFee cfg) \<lceil>(of_int (amount * feeBps cfg) :: rat) / 10000\<rceil>"

definition processMintTo :: "holding \<Rightarrow> int \<Rightarrow> holding" where
  "processMintTo dst amount = dst\<lparr>balance := balance dst + amount\<rparr>"

definition processTransferCheckedWithFee ::
    "mintConfig \<Rightarrow> buffer \<Rightarrow> holding \<times> holding \<Rightarrow> exn + holding \<times> holding" where
  "processTransferCheckedWithFee cfg data accounts =
     (if length data = 19 \<and> take 2 data = [26, 1] then
        (let amount = readUIntLE (take 8 (drop 2 data));
             decimals = readUIntLE (take 1 (drop 10 data));
             fee = readUIntLE (drop 11 data);
             src = fst accounts;
             dst = snd accounts
         in if decimals = mintDecimals cfg then
              (if fee = requiredFee cfg amount then
                 (if amount \<le> balance src then
                    Inr (src\<lparr>balance := balance src - amount\<rparr>,
                         dst\<lparr>balance := balance dst + (amount - fee),
                             withheld := withheld dst + fee\<rparr>)
                  else Inl ''InsufficientFunds'')
               else Inl ''FeeMismatch'')
            else Inl ''MintDecimalsMismatch'')
      else Inl ''InvalidInstruction'')"

section \<open>The codec: little-endian fields\<close>

lemma readUIntLE_le_bytes:
  "0 \<le> v \<Longrightarrow> v < 256 ^ k \<Longrightarrow> readUIntLE (le_bytes k v) = v"
proof (induction k arbitrary: v)
  case 0
  then show ?case by simp
next
  case (Suc k)
  have "v div 256 < 256 ^ k"
    using Suc.prems by simp
  moreover have "0 \<le> v div 256" using Suc.prems by simp
  ultimately have "readUIntLE (le_bytes k (v div 256)) = v div 256"
    by (rule Suc.IH[rotated])
  moreover have "uint (word_of_int v :: byte) = v mod 256"
    by (simp add: uint_word_of_int)
  ultimately show ?case by simp
qed

lemma length_le_bytes: "length (le_bytes k v) = k"
  by (induction k arbitrary: v) simp_all

lemma u64ToBufferLE_word:
  "u64ToBufferLE (Integral (uint (a :: 64 word))) = Inr (le_bytes 8 (uint a))"
proof -
  have "uint a < 2 ^ 64" using uint_bounded[of a] by simp
  then show ?thesis by (simp add: u64ToBufferLE_def writeBigUInt64LE_def)
qed

lemma readUIntLE_le_bytes_word:
  "readUIntLE (le_bytes 8 (uint (a :: 64 word))) = uint a"
proof -
  have "uint a < 2 ^ 64" using uint_bounded[of a] by simp
  then have "uint a < 256 ^ 8" by simp
  then show ?thesis by (intro readUIntLE_le_bytes) simp_all
qed

lemma le_bytes_8:
  "le_bytes 8 v =
     [word_of_int v, word_of_int (v div 256), word_of_int (v div 256 div 256),
      word_of_int (v div 256 div 256 div 256), word_of_int (v div 256 div 256 div 256 div 256),
      word_of_int (v div 256 div 256 div 256 div 256 div 256),
      word_of_int (v div 256 div 256 div 256 div 256 div 256 div 256),
      word_of_int (v div 256 div 256 div 256 div 256 div 256 div 256 div 256)]"
  by (simp add: eval_nat_numeral)

text \<open>
  The fee of the test at its own constants, where every step is exact, and at two
  amounts whose product with 10000 is not a double: the rounded product, divided by
  10000 and rounded up, is one more than the amount.
\<close>

lemma testFee_of_the_test: "testFee 100000 100 = Integral 1000"
  by code_simp

lemma testFee_rounds:
  "testFee 8793707278763720 10000 = Integral 8793707278763721"
  "testFee 14411518807587 10000 = Integral 14411518807588"
  by code_simp+

lemma test_data:
  "transferCheckedWithFeeData (Integral 100000) 6 (testFee 100000 100)
     = Inr [26, 1, 160, 134, 1, 0, 0, 0, 0, 0, 6, 232, 3, 0, 0, 0, 0, 0, 0]"
  by (simp add: testFee_of_the_test transferCheckedWithFeeData_def u64ToBufferLE_def
      writeBigUInt64LE_def le_bytes_8)

text \<open>
  C2. For every amount and fee of 64 unsigned bits and every decimals of 8 unsigned
  bits, the data of a transfer-with-fee instruction is the selector bytes 26 and 1, then
  eight bytes that read back little-endian as the amount, then the decimals byte, then
  eight bytes that read back little-endian as the fee; and the data for amount 100000,
  decimals 6 and fee 1000 has 19 bytes and begins with 26, 1.
\<close>

theorem transfer_data_layout:
  fixes amount fee :: "64 word" and decimals :: byte
  shows "(\<exists>amountBytes feeBytes.
           transferCheckedWithFeeData (Integral (uint amount)) (uint decimals) (Integral (uint fee))
             = Inr ([26, 1] @ amountBytes @ [decimals] @ feeBytes)
         \<and> length amountBytes = 8 \<and> readUIntLE amountBytes = uint amount
         \<and> length feeBytes = 8 \<and> readUIntLE feeBytes = uint fee)
       \<and> (case transferCheckedWithFeeData (Integral 100000) 6 (Integral 1000) of
            Inl e \<Rightarrow> False
          | Inr data \<Rightarrow> length data = 19 \<and> take 2 data = [26, 1])"
proof
  show "\<exists>amountBytes feeBytes.
           transferCheckedWithFeeData (Integral (uint amount)) (uint decimals) (Integral (uint fee))
             = Inr ([26, 1] @ amountBytes @ [decimals] @ feeBytes)
         \<and> length amountBytes = 8 \<and> readUIntLE amountBytes = uint amount
         \<and> length feeBytes = 8 \<and> readUIntLE feeBytes = uint fee"
    by (intro exI[of _ "le_bytes 8 (uint amount)"] exI[of _ "le_bytes 8 (uint fee)"])
       (simp add: transferCheckedWithFeeData_def u64ToBufferLE_word length_le_bytes
          readUIntLE_le_bytes_word)
  show "case transferCheckedWithFeeData (Integral 100000) 6 (Integral 1000) of
           Inl e \<Rightarrow> False
         | Inr data \<Rightarrow> length data = 19 \<and> take 2 data = [26, 1]"
    by (simp add: transferCheckedWithFeeData_def u64ToBufferLE_def writeBigUInt64LE_def
        length_le_bytes)
qed

section \<open>The log\<close>

text \<open>
  C9. A log write puts the new entry first and keeps the first 19 of the earlier
  entries behind it, in their order: the log reads newest first, and what is dropped is
  the oldest entries.
\<close>

theorem pushLog_prepends:
  "pushLog str s = (Inr (), s\<lparr>logs := str # take 19 (logs s)\<rparr>)
   \<and> hd (logs (snd (pushLog str s))) = str
   \<and> tl (logs (snd (pushLog str s))) = take 19 (logs s)"
  by (simp add: pushLog_def take_Cons')

section \<open>Scenario A on the token program\<close>

text \<open>
  C8. With decimals 6, 100 basis points and a maximum fee of 1000000 (the arguments of
  \<^verbatim>\<open>createTaxedToken\<close>), after 1000000 are minted to the payer, the instruction the
  test builds for a transfer of 100000 carries the fee 1000, which is the fee the token
  program requires, and the program leaves 900000 with the payer, 99000 with the
  recipient and 1000 withheld.
\<close>

theorem scenario_A:
  "testFee 100000 100 = Integral 1000
   \<and> requiredFee \<lparr>mintDecimals = 6, feeBps = 100, maximumFee = 1000000\<rparr> 100000 = 1000
   \<and> (case transferCheckedWithFeeData (Integral 100000) 6 (testFee 100000 100) of
        Inl e \<Rightarrow> Inl e
      | Inr data \<Rightarrow>
          processTransferCheckedWithFee \<lparr>mintDecimals = 6, feeBps = 100, maximumFee = 1000000\<rparr> data
            (processMintTo \<lparr>balance = 0, withheld = 0\<rparr> 1000000, \<lparr>balance = 0, withheld = 0\<rparr>))
     = Inr (\<lparr>balance = 900000, withheld = 0\<rparr>, \<lparr>balance = 99000, withheld = 1000\<rparr>)"
proof -
  have fee: "testFee 100000 100 = Integral 1000"
    by (rule testFee_of_the_test)
  have required: "requiredFee \<lparr>mintDecimals = 6, feeBps = 100, maximumFee = 1000000\<rparr> 100000 = 1000"
    by (simp add: requiredFee_def)
  have processed:
    "processTransferCheckedWithFee \<lparr>mintDecimals = 6, feeBps = 100, maximumFee = 1000000\<rparr>
       [26, 1, 160, 134, 1, 0, 0, 0, 0, 0, 6, 232, 3, 0, 0, 0, 0, 0, 0]
       (processMintTo \<lparr>balance = 0, withheld = 0\<rparr> 1000000, \<lparr>balance = 0, withheld = 0\<rparr>)
     = Inr (\<lparr>balance = 900000, withheld = 0\<rparr>, \<lparr>balance = 99000, withheld = 1000\<rparr>)"
    by (simp add: processTransferCheckedWithFee_def processMintTo_def required)
  show ?thesis
    unfolding test_data by (simp add: fee required processed)
qed

section \<open>The log is bounded and never read\<close>

lemma sameButLogs_fields:
  "sameButLogs s t \<longleftrightarrow> selectedMint s = selectedMint t \<and> payerAta s = payerAta t \<and>
     payerBalance s = payerBalance t \<and> mintAmount s = mintAmount t \<and> calls s = calls t"
  unfolding sameButLogs_def by (cases s, cases t) auto

lemma logfree_ret: "logfree (ret x)"
  by (simp add: logfree_def ret_def)

lemma logfree_await: "logfree (await c r)"
  by (simp add: logfree_def await_def sameButLogs_fields)

lemma logfree_pushLog: "logfree (pushLog str)"
  by (simp add: logfree_def pushLog_def sameButLogs_fields)

lemma logfree_set:
  "logfree (setSelectedMint m)" "logfree (setPayerAta a)" "logfree (setPayerBalance b)"
  "logfree (setMintAmount n)"
  by (simp_all add: logfree_def setSelectedMint_def setPayerAta_def setPayerBalance_def
      setMintAmount_def sameButLogs_fields)

lemma logfree_bind:
  assumes m: "logfree m" and f: "\<And>x. logfree (f x)"
  shows "logfree (bind m f)"
  unfolding logfree_def
proof (intro allI impI)
  fix s t
  assume st: "sameButLogs s t"
  obtain r s' where ms: "m s = (r, s')" by (cases "m s")
  obtain r' t' where mt: "m t = (r', t')" by (cases "m t")
  from m[unfolded logfree_def, rule_format, OF st] ms mt
  have rr: "r' = r" and s't': "sameButLogs s' t'" by simp_all
  show "fst (bind m f s) = fst (bind m f t) \<and> sameButLogs (snd (bind m f s)) (snd (bind m f t))"
  proof (cases r)
    case (Inl e)
    then show ?thesis using ms mt rr s't' by (simp add: bind_def)
  next
    case (Inr x)
    from f[of x, unfolded logfree_def, rule_format, OF s't'] show ?thesis
      using ms mt rr Inr by (simp add: bind_def)
  qed
qed

lemma logfree_catch:
  assumes m: "logfree m" and h: "\<And>e. logfree (h e)"
  shows "logfree (catch m h)"
  unfolding logfree_def
proof (intro allI impI)
  fix s t
  assume st: "sameButLogs s t"
  obtain r s' where ms: "m s = (r, s')" by (cases "m s")
  obtain r' t' where mt: "m t = (r', t')" by (cases "m t")
  from m[unfolded logfree_def, rule_format, OF st] ms mt
  have rr: "r' = r" and s't': "sameButLogs s' t'" by simp_all
  show "fst (catch m h s) = fst (catch m h t) \<and> sameButLogs (snd (catch m h s)) (snd (catch m h t))"
  proof (cases r)
    case (Inl e)
    from h[of e, unfolded logfree_def, rule_format, OF s't'] show ?thesis
      using ms mt rr Inl by (simp add: catch_def)
  next
    case (Inr x)
    then show ?thesis using ms mt rr s't' by (simp add: catch_def)
  qed
qed

lemma logfree_gets:
  "logfree (gets selectedMint)" "logfree (gets payerAta)" "logfree (gets mintAmount)"
  by (simp_all add: logfree_def gets_def sameButLogs_fields)

lemma logfree_case_option:
  "logfree a \<Longrightarrow> (\<And>x. logfree (b x)) \<Longrightarrow> logfree (case opt of None \<Rightarrow> a | Some x \<Rightarrow> b x)"
  by (cases opt) simp_all

lemma logfree_if: "logfree a \<Longrightarrow> logfree b \<Longrightarrow> logfree (if c then a else b)"
  by simp

lemma logfree_calls:
  "logfree (callBigInt n)" "logfree (callEncodeData n)"
  "logfree (callNewPublicKey w v)" "logfree (callGetAssociatedTokenAddress w m p)"
  "logfree (callGetAccountInfo w a)" "logfree (callGetAccount w a)" "logfree (callRpc w c)"
  "logfree (callSendTransaction w tx)" "logfree (callConfirmTransaction w sg)"
  by (simp_all add: callBigInt_def callEncodeData_def callNewPublicKey_def
      callGetAssociatedTokenAddress_def callGetAccountInfo_def
      callGetAccount_def callRpc_def callSendTransaction_def callConfirmTransaction_def logfree_await)

lemmas logfree_intros = logfree_gets logfree_ret logfree_pushLog logfree_set
  logfree_calls logfree_bind logfree_catch logfree_case_option logfree_if

lemma logfree_loadProgram: "logfree (loadProgram w wal)"
  unfolding loadProgram_def by (intro logfree_intros)

lemma logfree_createTaxedToken: "logfree (createTaxedToken w wal)"
  unfolding createTaxedToken_def Let_def
  by (intro logfree_intros logfree_loadProgram)

lemma logfree_createSoulboundToken: "logfree (createSoulboundToken w wal)"
  unfolding createSoulboundToken_def Let_def
  by (intro logfree_intros logfree_loadProgram)

lemma logfree_createPayerAta: "logfree (createPayerAta w wal)"
  unfolding createPayerAta_def Let_def
  by (intro logfree_intros)

lemma logfree_mintToPayer: "logfree (mintToPayer w wal amount)"
  unfolding mintToPayer_def Let_def
  by (intro logfree_intros)

lemma logfree_refreshPayerBalance: "logfree (refreshPayerBalance w)"
  unfolding refreshPayerBalance_def Let_def
  by (intro logfree_intros)

lemma logfree_createRecipientAta: "logfree (createRecipientAta w wal v)"
  unfolding createRecipientAta_def Let_def
  by (intro logfree_intros)

lemma logfree_transferWithFee: "logfree (transferWithFee w wal v a)"
  unfolding transferWithFee_def Let_def
  by (intro logfree_intros)

lemma logfree_inspectRecipient: "logfree (inspectRecipient w v)"
  unfolding inspectRecipient_def Let_def
  by (intro logfree_intros)

lemma logfree_withdrawWithheld: "logfree (withdrawWithheld w wal v)"
  unfolding withdrawWithheld_def Let_def
  by (intro logfree_intros)

lemma logfree_handle: "logfree (handle w wal a)"
  by (cases a)
     (simp_all add: logfree_loadProgram logfree_createTaxedToken logfree_createSoulboundToken
        logfree_createPayerAta logfree_mintToPayer logfree_refreshPayerBalance
        logfree_createRecipientAta logfree_transferWithFee logfree_inspectRecipient
        logfree_withdrawWithheld logfree_set logfree_bind logfree_ret)

lemma disabled_logs: "disabled wal (s\<lparr>logs := l\<rparr>) a = disabled wal s a"
  by (cases a) simp_all

lemma logfree_click: "logfree (click w wal a)"
proof -
  have same: "disabled wal s a = disabled wal t a" if "sameButLogs s t" for s t
    using that by (cases a) (simp_all add: sameButLogs_fields)
  show ?thesis
    unfolding logfree_def click_def
    using logfree_handle[of w wal a, unfolded logfree_def] same by auto
qed

lemma keepsBound_ret: "keepsBound (ret x)"
  by (simp add: keepsBound_def ret_def)

lemma keepsBound_gets: "keepsBound (gets f)"
  by (simp add: keepsBound_def gets_def)

lemma keepsBound_await: "keepsBound (await c r)"
  by (simp add: keepsBound_def await_def)

lemma keepsBound_pushLog: "keepsBound (pushLog str)"
  by (simp add: keepsBound_def pushLog_def)

lemma keepsBound_set:
  "keepsBound (setSelectedMint m)" "keepsBound (setPayerAta a)" "keepsBound (setPayerBalance b)"
  "keepsBound (setMintAmount n)"
  by (simp_all add: keepsBound_def setSelectedMint_def setPayerAta_def setPayerBalance_def
      setMintAmount_def)

lemma keepsBound_bind: "keepsBound m \<Longrightarrow> (\<And>x. keepsBound (f x)) \<Longrightarrow> keepsBound (bind m f)"
  unfolding keepsBound_def bind_def
  apply (intro allI impI)
  subgoal for s
    apply (erule_tac x=s in allE)
    apply (cases "m s")
    apply (auto split: sum.splits)
    done
  done

lemma keepsBound_catch: "keepsBound m \<Longrightarrow> (\<And>e. keepsBound (h e)) \<Longrightarrow> keepsBound (catch m h)"
  unfolding keepsBound_def catch_def
  apply (intro allI impI)
  subgoal for s
    apply (erule_tac x=s in allE)
    apply (cases "m s")
    apply (auto split: sum.splits)
    done
  done

lemma keepsBound_calls:
  "keepsBound (callBigInt n)" "keepsBound (callEncodeData n)"
  "keepsBound (callNewPublicKey w v)" "keepsBound (callGetAssociatedTokenAddress w m p)"
  "keepsBound (callGetAccountInfo w a)" "keepsBound (callGetAccount w a)" "keepsBound (callRpc w c)"
  "keepsBound (callSendTransaction w tx)" "keepsBound (callConfirmTransaction w sg)"
  by (simp_all add: callBigInt_def callEncodeData_def callNewPublicKey_def
      callGetAssociatedTokenAddress_def callGetAccountInfo_def
      callGetAccount_def callRpc_def callSendTransaction_def callConfirmTransaction_def keepsBound_await)

lemma keepsBound_case_option:
  "keepsBound a \<Longrightarrow> (\<And>x. keepsBound (b x)) \<Longrightarrow> keepsBound (case opt of None \<Rightarrow> a | Some x \<Rightarrow> b x)"
  by (cases opt) simp_all

lemma keepsBound_if: "keepsBound a \<Longrightarrow> keepsBound b \<Longrightarrow> keepsBound (if c then a else b)"
  by simp

lemmas keepsBound_intros = keepsBound_ret keepsBound_gets keepsBound_pushLog
  keepsBound_set keepsBound_calls keepsBound_bind keepsBound_catch keepsBound_case_option
  keepsBound_if

lemma keepsBound_handle: "keepsBound (handle w wal a)"
  by (cases a)
     (simp_all add: loadProgram_def createTaxedToken_def createSoulboundToken_def createPayerAta_def
        mintToPayer_def refreshPayerBalance_def createRecipientAta_def transferWithFee_def
        inspectRecipient_def withdrawWithheld_def Let_def keepsBound_intros)

lemma click_bound: "length (logs s) \<le> 20 \<Longrightarrow> length (logs (snd (click w wal a s))) \<le> 20"
  using keepsBound_handle[of w wal a] by (simp add: keepsBound_def click_def)

lemma session_bound: "length (logs s) \<le> 20 \<Longrightarrow> length (logs (session steps s)) \<le> 20"
proof (induction steps arbitrary: s)
  case Nil
  then show ?case by simp
next
  case (Cons step steps)
  obtain w wal a where step: "step = (w, wal, a)" by (cases step)
  show ?case unfolding step using Cons.IH[OF click_bound[OF Cons.prems]] by simp
qed

lemma take_take_cons: "take 20 (x # take 20 ys) = take 20 (x # ys)"
  by (simp add: take_Cons')

lemma take_append_take: "take n (xs @ take n ys) = take n (xs @ ys)"
  by (induction xs arbitrary: n) (simp_all add: take_Cons')

lemma pushLogs_logs:
  "length (logs s) \<le> 20 \<Longrightarrow> logs (pushLogs strs s) = take 20 (rev strs @ logs s)"
proof (induction strs arbitrary: s)
  case Nil
  then show ?case by simp
next
  case (Cons str strs)
  have "logs (pushLogs strs (snd (pushLog str s)))
      = take 20 (rev strs @ logs (snd (pushLog str s)))"
    by (rule Cons.IH) (simp add: pushLog_def)
  also have "\<dots> = take 20 (rev strs @ take 20 (str # logs s))"
    by (simp add: pushLog_def)
  also have "\<dots> = take 20 (rev strs @ str # logs s)"
    by (rule take_append_take)
  finally show ?case by simp
qed

text \<open>
  C7. A log write leaves the first 20 of the new entry followed by the earlier log;
  after any sequence of log writes the log is the 20 most recent entries, newest first
  (the first 20 of the written entries in reverse order followed by the earlier log),
  so what is dropped is the oldest entries. The log holds at most 20 entries after
  every log write, and so at the end of every session; a log write never throws and
  touches nothing but the log (dropping the older entries is silent); and no handler
  and no button reads the log: run from two states that differ only in their logs, a
  handler ends the same way, makes the same calls and leaves the same state but for
  the log.
\<close>

theorem log_bounded_and_unobserved:
  "logs (snd (pushLog str s)) = take 20 (str # logs s)
   \<and> logs (pushLogs (str # strs) s) = take 20 (rev (str # strs) @ logs s)
   \<and> length (logs (snd (pushLog str s))) \<le> 20
   \<and> fst (pushLog str s) = Inr ()
   \<and> (snd (pushLog str s))\<lparr>logs := logs s\<rparr> = s
   \<and> length (logs (session steps initialState)) \<le> 20
   \<and> fst (handle w wal a (s\<lparr>logs := l\<rparr>)) = fst (handle w wal a s)
   \<and> (snd (handle w wal a (s\<lparr>logs := l\<rparr>)))\<lparr>logs := []\<rparr> = (snd (handle w wal a s))\<lparr>logs := []\<rparr>
   \<and> disabled wal (s\<lparr>logs := l\<rparr>) a = disabled wal s a"
proof -
  have same: "sameButLogs (s\<lparr>logs := l\<rparr>) s"
    by (simp add: sameButLogs_def)
  have free: "fst (handle w wal a (s\<lparr>logs := l\<rparr>)) = fst (handle w wal a s)
      \<and> sameButLogs (snd (handle w wal a (s\<lparr>logs := l\<rparr>))) (snd (handle w wal a s))"
    using logfree_handle[of w wal a] same unfolding logfree_def by blast
  have bound: "length (logs (session steps initialState)) \<le> 20"
    by (rule session_bound) (simp add: initialState_def)
  have "logs (pushLogs strs (snd (pushLog str s)))
      = take 20 (rev strs @ logs (snd (pushLog str s)))"
    by (rule pushLogs_logs) (simp add: pushLog_def)
  also have "\<dots> = take 20 (rev strs @ take 20 (str # logs s))"
    by (simp add: pushLog_def)
  also have "\<dots> = take 20 (rev strs @ str # logs s)"
    by (rule take_append_take)
  finally have recent: "logs (pushLogs (str # strs) s) = take 20 (rev (str # strs) @ logs s)"
    by simp
  show ?thesis
    using free bound recent by (simp add: pushLog_def sameButLogs_def disabled_logs)
qed

section \<open>Running the handlers\<close>

lemmas run_defs = ret_def bind_def catch_def gets_def await_def pushLog_def callBigInt_def
  callEncodeData_def
  setSelectedMint_def setPayerAta_def setPayerBalance_def setMintAmount_def
  callNewPublicKey_def callGetAssociatedTokenAddress_def callGetAccountInfo_def
  callGetAccount_def callRpc_def callSendTransaction_def callConfirmTransaction_def Let_def

lemma createPayerAta_found:
  assumes "selectedMint s = Some mint" "publicKey wal = Some pk"
    and "getAssociatedTokenAddress w mint pk = Inr ata"
    and "getAccountInfo w ata = Inr (Some info)"
  shows "createPayerAta w wal s =
           (Inr (), s\<lparr>logs := take 20 ((''Payer ATA already exists: '' @ ata) # logs s),
                        payerAta := Some ata,
                        calls := calls s @ [GetAssociatedTokenAddress (Some mint) (Some pk),
                                            GetAccountInfo ata]\<rparr>)"
  using assms by (simp add: createPayerAta_def run_defs)

lemma createPayerAta_absent:
  assumes "selectedMint s = Some mint" "publicKey wal = Some pk"
    and "getAssociatedTokenAddress w mint pk = Inr ata"
    and "getAccountInfo w ata = Inr None"
  shows "createPayerAta w wal s =
           (Inr (),
            (let ix = CreateAssociatedTokenAccount (Some pk) ata pk (Some mint);
                 before = calls s @ [GetAssociatedTokenAddress (Some mint) (Some pk),
                                     GetAccountInfo ata, SendTransaction [ix]]
             in case sendTransaction w [ix] of
                  Inl e \<Rightarrow> s\<lparr>logs := take 20 ((''createPayerAta failed: '' @ e) # logs s),
                               calls := before\<rparr>
                | Inr sg \<Rightarrow>
                    (case confirmTransaction w sg of
                       Inl e \<Rightarrow> s\<lparr>logs := take 20 ((''createPayerAta failed: '' @ e) # logs s),
                                    calls := before @ [ConfirmTransaction sg]\<rparr>
                     | Inr u \<Rightarrow> s\<lparr>logs := take 20 ((''Created payer ATA: '' @ ata @ '' ('' @ sg @ '')'') # logs s),
                                    payerAta := Some ata,
                                    calls := before @ [ConfirmTransaction sg]\<rparr>)))"
  using assms by (simp add: createPayerAta_def run_defs split: sum.splits)

lemma createPayerAta_query_fails:
  assumes "selectedMint s = Some mint" "publicKey wal = Some pk"
    and "getAssociatedTokenAddress w mint pk = Inr ata"
    and "getAccountInfo w ata = Inl e"
  shows "createPayerAta w wal s =
           (Inr (), s\<lparr>logs := take 20 ((''createPayerAta failed: '' @ e) # logs s),
                        calls := calls s @ [GetAssociatedTokenAddress (Some mint) (Some pk),
                                            GetAccountInfo ata]\<rparr>)"
  using assms by (simp add: createPayerAta_def run_defs)

lemma createRecipientAta_found:
  assumes "trim v \<noteq> []" "newPublicKey w (trim v) = Inr owner" "selectedMint s = Some mint"
    and "getAssociatedTokenAddress w mint owner = Inr ata"
    and "getAccountInfo w ata = Inr (Some info)"
  shows "createRecipientAta w wal v s =
           (Inr (), s\<lparr>logs := take 20 ((''Recipient ATA exists: '' @ ata) # logs s),
                        calls := calls s @ [NewPublicKey (trim v),
                                            GetAssociatedTokenAddress (Some mint) (Some owner),
                                            GetAccountInfo ata]\<rparr>)"
  using assms by (simp add: createRecipientAta_def run_defs)

lemma createRecipientAta_absent:
  assumes "trim v \<noteq> []" "newPublicKey w (trim v) = Inr owner" "selectedMint s = Some mint"
    and "getAssociatedTokenAddress w mint owner = Inr ata"
    and "getAccountInfo w ata = Inr None"
  shows "createRecipientAta w wal v s =
           (Inr (),
            (let ix = CreateAssociatedTokenAccount (publicKey wal) ata owner (Some mint);
                 before = calls s @ [NewPublicKey (trim v),
                                     GetAssociatedTokenAddress (Some mint) (Some owner),
                                     GetAccountInfo ata, SendTransaction [ix]]
             in case sendTransaction w [ix] of
                  Inl e \<Rightarrow> s\<lparr>logs := take 20 ((''createRecipientAta failed: '' @ e) # logs s),
                               calls := before\<rparr>
                | Inr sg \<Rightarrow>
                    (case confirmTransaction w sg of
                       Inl e \<Rightarrow> s\<lparr>logs := take 20 ((''createRecipientAta failed: '' @ e) # logs s),
                                    calls := before @ [ConfirmTransaction sg]\<rparr>
                     | Inr u \<Rightarrow> s\<lparr>logs := take 20 ((''Created recipient ATA: '' @ ata @ '' ('' @ sg @ '')'') # logs s),
                                    calls := before @ [ConfirmTransaction sg]\<rparr>)))"
  using assms by (simp add: createRecipientAta_def run_defs split: sum.splits)

lemma createRecipientAta_query_fails:
  assumes "trim v \<noteq> []" "newPublicKey w (trim v) = Inr owner" "selectedMint s = Some mint"
    and "getAssociatedTokenAddress w mint owner = Inr ata"
    and "getAccountInfo w ata = Inl e"
  shows "createRecipientAta w wal v s =
           (Inr (), s\<lparr>logs := take 20 ((''createRecipientAta failed: '' @ e) # logs s),
                        calls := calls s @ [NewPublicKey (trim v),
                                            GetAssociatedTokenAddress (Some mint) (Some owner),
                                            GetAccountInfo ata]\<rparr>)"
  using assms by (simp add: createRecipientAta_def run_defs)

lemma transferWithFee_guard:
  assumes "Number w ''0'' = Integral 0"
    and "trim v = [] \<or> a = [] \<or> Number w a = NaN \<or> Number w a = Integral 0"
  shows "transferWithFee w wal v a s = pushLog ''Provide recipient and amount'' s"
  using assms by (auto simp add: transferWithFee_def run_defs)

lemmas example_defs = mintSelected_def accountReady_def accountsExist_def offline_def
  exampleWorld_def exampleWallet_def noWallet_def initialState_def

lemma newCalls_append [simp]: "newCalls s (s\<lparr>calls := calls s @ cs\<rparr>) = cs"
  by (simp add: newCalls_def)

lemma newCalls_append' [simp]: "newCalls s (s\<lparr>logs := l, calls := calls s @ cs\<rparr>) = cs"
  by (simp add: newCalls_def)

lemma newCalls_append'' [simp]: "newCalls s (s\<lparr>logs := l, payerAta := p, calls := calls s @ cs\<rparr>) = cs"
  by (simp add: newCalls_def)

section \<open>Associated accounts\<close>

text \<open>
  C5. For the payer's handler and for the recipient's handler, with the mint selected
  and the address derived: when the account is found, the handler ends normally, logs
  that the account exists (the payer's handler also records the address in
  \<open>payerAta\<close>), makes no call after the query and submits no instruction; when the
  query answers that there is no account, the instructions it submits are exactly one
  creation instruction for that address, owner and mint.
\<close>

theorem account_creation_idempotent:
  "(selectedMint s = Some mint \<and> publicKey wal = Some pk
      \<and> getAssociatedTokenAddress w mint pk = Inr ata \<longrightarrow>
      (getAccountInfo w ata = Inr (Some info) \<longrightarrow>
         createPayerAta w wal s =
           (Inr (), s\<lparr>logs := take 20 ((''Payer ATA already exists: '' @ ata) # logs s),
                        payerAta := Some ata,
                        calls := calls s @ [GetAssociatedTokenAddress (Some mint) (Some pk),
                                            GetAccountInfo ata]\<rparr>)
         \<and> submitted (newCalls s (snd (createPayerAta w wal s))) = [])
      \<and> (getAccountInfo w ata = Inr None \<longrightarrow>
         submitted (newCalls s (snd (createPayerAta w wal s)))
           = [CreateAssociatedTokenAccount (Some pk) ata pk (Some mint)]))
   \<and> (trim v \<noteq> [] \<and> newPublicKey w (trim v) = Inr owner \<and> selectedMint s = Some mint
      \<and> getAssociatedTokenAddress w mint owner = Inr ata' \<longrightarrow>
      (getAccountInfo w ata' = Inr (Some info') \<longrightarrow>
         createRecipientAta w wal v s =
           (Inr (), s\<lparr>logs := take 20 ((''Recipient ATA exists: '' @ ata') # logs s),
                        calls := calls s @ [NewPublicKey (trim v),
                                            GetAssociatedTokenAddress (Some mint) (Some owner),
                                            GetAccountInfo ata']\<rparr>)
         \<and> submitted (newCalls s (snd (createRecipientAta w wal v s))) = [])
      \<and> (getAccountInfo w ata' = Inr None \<longrightarrow>
         submitted (newCalls s (snd (createRecipientAta w wal v s)))
           = [CreateAssociatedTokenAccount (publicKey wal) ata' owner (Some mint)]))"
proof (intro conjI impI; (elim conjE)?)
  assume a: "selectedMint s = Some mint" "publicKey wal = Some pk"
    "getAssociatedTokenAddress w mint pk = Inr ata"
  { assume i: "getAccountInfo w ata = Inr (Some info)"
    show "createPayerAta w wal s =
           (Inr (), s\<lparr>logs := take 20 ((''Payer ATA already exists: '' @ ata) # logs s),
                        payerAta := Some ata,
                        calls := calls s @ [GetAssociatedTokenAddress (Some mint) (Some pk),
                                            GetAccountInfo ata]\<rparr>)"
      by (rule createPayerAta_found[OF a i])
    show "submitted (newCalls s (snd (createPayerAta w wal s))) = []"
      by (simp add: createPayerAta_found[OF a i]) }
  { assume i: "getAccountInfo w ata = Inr None"
    show "submitted (newCalls s (snd (createPayerAta w wal s)))
           = [CreateAssociatedTokenAccount (Some pk) ata pk (Some mint)]"
      by (simp add: createPayerAta_absent[OF a i] Let_def newCalls_def split: sum.splits) }
next
  assume a: "trim v \<noteq> []" "newPublicKey w (trim v) = Inr owner" "selectedMint s = Some mint"
    "getAssociatedTokenAddress w mint owner = Inr ata'"
  { assume i: "getAccountInfo w ata' = Inr (Some info')"
    show "createRecipientAta w wal v s =
           (Inr (), s\<lparr>logs := take 20 ((''Recipient ATA exists: '' @ ata') # logs s),
                        calls := calls s @ [NewPublicKey (trim v),
                                            GetAssociatedTokenAddress (Some mint) (Some owner),
                                            GetAccountInfo ata']\<rparr>)"
      by (rule createRecipientAta_found[OF a i])
    show "submitted (newCalls s (snd (createRecipientAta w wal v s))) = []"
      by (simp add: createRecipientAta_found[OF a i]) }
  { assume i: "getAccountInfo w ata' = Inr None"
    show "submitted (newCalls s (snd (createRecipientAta w wal v s)))
           = [CreateAssociatedTokenAccount (publicKey wal) ata' owner (Some mint)]"
      by (simp add: createRecipientAta_absent[OF a i] Let_def newCalls_def split: sum.splits) }
qed

lemma example_facts:
  "selectedMint mintSelected = Some ''Mint''"
  "publicKey exampleWallet = Some ''Payer''"
  "trim ''Recipient'' = ''Recipient''"
  "getAssociatedTokenAddress exampleWorld m p = Inr (m @ ''/'' @ p)"
  "getAssociatedTokenAddress accountsExist m p = Inr (m @ ''/'' @ p)"
  "getAssociatedTokenAddress offline m p = Inr (m @ ''/'' @ p)"
  "newPublicKey exampleWorld v = Inr v"
  "newPublicKey accountsExist v = Inr v"
  "newPublicKey offline v = Inr v"
  "getAccountInfo exampleWorld a = Inr None"
  "getAccountInfo accountsExist a = Inr (Some [])"
  "getAccountInfo offline a = Inl ''failed to fetch''"
  by (simp_all add: example_defs trim_def isSpace_def)

theorem account_creation_idempotent_witness:
  "submitted (newCalls mintSelected (snd (createPayerAta accountsExist exampleWallet mintSelected))) = []
   \<and> payerAta (snd (createPayerAta accountsExist exampleWallet mintSelected)) = Some ''Mint/Payer''
   \<and> fst (createPayerAta accountsExist exampleWallet mintSelected) = Inr ()
   \<and> submitted (newCalls mintSelected (snd (createPayerAta exampleWorld exampleWallet mintSelected)))
       = [CreateAssociatedTokenAccount (Some ''Payer'') ''Mint/Payer'' ''Payer'' (Some ''Mint'')]
   \<and> submitted (newCalls mintSelected
         (snd (createRecipientAta accountsExist exampleWallet ''Recipient'' mintSelected))) = []
   \<and> submitted (newCalls mintSelected
         (snd (createRecipientAta exampleWorld exampleWallet ''Recipient'' mintSelected)))
       = [CreateAssociatedTokenAccount (Some ''Payer'') ''Mint/Recipient'' ''Recipient'' (Some ''Mint'')]"
proof -
  note found = account_creation_idempotent[where s = mintSelected and mint = "''Mint''"
      and wal = exampleWallet and pk = "''Payer''" and w = accountsExist
      and ata = "''Mint/Payer''" and info = "[]" and v = "''Recipient''"
      and owner = "''Recipient''" and ata' = "''Mint/Recipient''" and info' = "[]"]
  note absent = account_creation_idempotent[where s = mintSelected and mint = "''Mint''"
      and wal = exampleWallet and pk = "''Payer''" and w = exampleWorld
      and ata = "''Mint/Payer''" and info = "[]" and v = "''Recipient''"
      and owner = "''Recipient''" and ata' = "''Mint/Recipient''" and info' = "[]"]
  have payer_found:
    "createPayerAta accountsExist exampleWallet mintSelected =
       (Inr (), mintSelected\<lparr>logs := take 20 ((''Payer ATA already exists: '' @ ''Mint/Payer'') # logs mintSelected),
                        payerAta := Some ''Mint/Payer'',
                        calls := calls mintSelected @ [GetAssociatedTokenAddress (Some ''Mint'') (Some ''Payer''),
                                            GetAccountInfo ''Mint/Payer'']\<rparr>)"
    and payer_found_none:
    "submitted (newCalls mintSelected (snd (createPayerAta accountsExist exampleWallet mintSelected))) = []"
    and recipient_found_none:
    "submitted (newCalls mintSelected
         (snd (createRecipientAta accountsExist exampleWallet ''Recipient'' mintSelected))) = []"
    using found by (simp_all add: example_facts)
  have payer_absent:
    "submitted (newCalls mintSelected (snd (createPayerAta exampleWorld exampleWallet mintSelected)))
       = [CreateAssociatedTokenAccount (Some ''Payer'') ''Mint/Payer'' ''Payer'' (Some ''Mint'')]"
    and recipient_absent:
    "submitted (newCalls mintSelected
         (snd (createRecipientAta exampleWorld exampleWallet ''Recipient'' mintSelected)))
       = [CreateAssociatedTokenAccount (Some ''Payer'') ''Mint/Recipient'' ''Recipient'' (Some ''Mint'')]"
    using absent by (simp_all add: example_facts)
  show ?thesis
    using payer_found_none recipient_found_none payer_absent recipient_absent
    by (simp add: payer_found)
qed

text \<open>
  C6. When the query of the account answers \<^verbatim>\<open>null\<close>, the handler goes on as for an
  account that does not exist: its next call submits the creation instruction. When
  the query throws, the handler stops there: it logs the failure with the thrown
  message, makes no further call, submits nothing and records no address.
\<close>

theorem missing_account_versus_transport_error:
  "(selectedMint s = Some mint \<and> publicKey wal = Some pk
      \<and> getAssociatedTokenAddress w mint pk = Inr ata \<longrightarrow>
      (getAccountInfo w ata = Inr None \<longrightarrow>
         take 3 (newCalls s (snd (createPayerAta w wal s)))
           = [GetAssociatedTokenAddress (Some mint) (Some pk), GetAccountInfo ata,
              SendTransaction [CreateAssociatedTokenAccount (Some pk) ata pk (Some mint)]])
      \<and> (getAccountInfo w ata = Inl e \<longrightarrow>
         createPayerAta w wal s =
           (Inr (), s\<lparr>logs := take 20 ((''createPayerAta failed: '' @ e) # logs s),
                        calls := calls s @ [GetAssociatedTokenAddress (Some mint) (Some pk),
                                            GetAccountInfo ata]\<rparr>)))
   \<and> (trim v \<noteq> [] \<and> newPublicKey w (trim v) = Inr owner \<and> selectedMint s = Some mint
      \<and> getAssociatedTokenAddress w mint owner = Inr ata' \<longrightarrow>
      (getAccountInfo w ata' = Inr None \<longrightarrow>
         take 4 (newCalls s (snd (createRecipientAta w wal v s)))
           = [NewPublicKey (trim v), GetAssociatedTokenAddress (Some mint) (Some owner),
              GetAccountInfo ata',
              SendTransaction [CreateAssociatedTokenAccount (publicKey wal) ata' owner (Some mint)]])
      \<and> (getAccountInfo w ata' = Inl e' \<longrightarrow>
         createRecipientAta w wal v s =
           (Inr (), s\<lparr>logs := take 20 ((''createRecipientAta failed: '' @ e') # logs s),
                        calls := calls s @ [NewPublicKey (trim v),
                                            GetAssociatedTokenAddress (Some mint) (Some owner),
                                            GetAccountInfo ata']\<rparr>)))"
proof (intro conjI impI; (elim conjE)?)
  assume a: "selectedMint s = Some mint" "publicKey wal = Some pk"
    "getAssociatedTokenAddress w mint pk = Inr ata"
  { assume i: "getAccountInfo w ata = Inr None"
    show "take 3 (newCalls s (snd (createPayerAta w wal s)))
           = [GetAssociatedTokenAddress (Some mint) (Some pk), GetAccountInfo ata,
              SendTransaction [CreateAssociatedTokenAccount (Some pk) ata pk (Some mint)]]"
      by (simp add: createPayerAta_absent[OF a i] Let_def newCalls_def split: sum.splits) }
  { assume i: "getAccountInfo w ata = Inl e"
    show "createPayerAta w wal s =
           (Inr (), s\<lparr>logs := take 20 ((''createPayerAta failed: '' @ e) # logs s),
                        calls := calls s @ [GetAssociatedTokenAddress (Some mint) (Some pk),
                                            GetAccountInfo ata]\<rparr>)"
      by (rule createPayerAta_query_fails[OF a i]) }
next
  assume a: "trim v \<noteq> []" "newPublicKey w (trim v) = Inr owner" "selectedMint s = Some mint"
    "getAssociatedTokenAddress w mint owner = Inr ata'"
  { assume i: "getAccountInfo w ata' = Inr None"
    show "take 4 (newCalls s (snd (createRecipientAta w wal v s)))
           = [NewPublicKey (trim v), GetAssociatedTokenAddress (Some mint) (Some owner),
              GetAccountInfo ata',
              SendTransaction [CreateAssociatedTokenAccount (publicKey wal) ata' owner (Some mint)]]"
      by (simp add: createRecipientAta_absent[OF a i] Let_def newCalls_def split: sum.splits) }
  { assume i: "getAccountInfo w ata' = Inl e'"
    show "createRecipientAta w wal v s =
           (Inr (), s\<lparr>logs := take 20 ((''createRecipientAta failed: '' @ e') # logs s),
                        calls := calls s @ [NewPublicKey (trim v),
                                            GetAssociatedTokenAddress (Some mint) (Some owner),
                                            GetAccountInfo ata']\<rparr>)"
      by (rule createRecipientAta_query_fails[OF a i]) }
qed

theorem missing_account_versus_transport_error_witness:
  "take 3 (newCalls mintSelected (snd (createPayerAta exampleWorld exampleWallet mintSelected)))
     = [GetAssociatedTokenAddress (Some ''Mint'') (Some ''Payer''), GetAccountInfo ''Mint/Payer'',
        SendTransaction [CreateAssociatedTokenAccount (Some ''Payer'') ''Mint/Payer'' ''Payer'' (Some ''Mint'')]]
   \<and> logs (snd (createPayerAta offline exampleWallet mintSelected))
       = [''createPayerAta failed: failed to fetch'']
   \<and> payerAta (snd (createPayerAta offline exampleWallet mintSelected)) = None
   \<and> submitted (newCalls mintSelected (snd (createPayerAta offline exampleWallet mintSelected))) = []
   \<and> logs (snd (createRecipientAta offline exampleWallet ''Recipient'' mintSelected))
       = [''createRecipientAta failed: failed to fetch'']
   \<and> submitted (newCalls mintSelected
         (snd (createRecipientAta offline exampleWallet ''Recipient'' mintSelected))) = []"
proof -
  note absent = missing_account_versus_transport_error[where s = mintSelected and mint = "''Mint''"
      and wal = exampleWallet and pk = "''Payer''" and w = exampleWorld
      and ata = "''Mint/Payer''" and v = "''Recipient''"
      and owner = "''Recipient''" and ata' = "''Mint/Recipient''"]
  note failing = missing_account_versus_transport_error[where s = mintSelected and mint = "''Mint''"
      and wal = exampleWallet and pk = "''Payer''" and w = offline
      and ata = "''Mint/Payer''" and e = "''failed to fetch''" and v = "''Recipient''"
      and owner = "''Recipient''" and ata' = "''Mint/Recipient''" and e' = "''failed to fetch''"]
  have sent:
    "take 3 (newCalls mintSelected (snd (createPayerAta exampleWorld exampleWallet mintSelected)))
     = [GetAssociatedTokenAddress (Some ''Mint'') (Some ''Payer''), GetAccountInfo ''Mint/Payer'',
        SendTransaction [CreateAssociatedTokenAccount (Some ''Payer'') ''Mint/Payer'' ''Payer'' (Some ''Mint'')]]"
    using absent by (simp add: example_facts)
  have payer:
    "createPayerAta offline exampleWallet mintSelected =
       (Inr (), mintSelected\<lparr>logs := take 20 ((''createPayerAta failed: '' @ ''failed to fetch'') # logs mintSelected),
                        calls := calls mintSelected @ [GetAssociatedTokenAddress (Some ''Mint'') (Some ''Payer''),
                                            GetAccountInfo ''Mint/Payer'']\<rparr>)"
    and recipient:
    "createRecipientAta offline exampleWallet ''Recipient'' mintSelected =
       (Inr (), mintSelected\<lparr>logs := take 20 ((''createRecipientAta failed: '' @ ''failed to fetch'') # logs mintSelected),
                        calls := calls mintSelected @ [NewPublicKey ''Recipient'',
                                            GetAssociatedTokenAddress (Some ''Mint'') (Some ''Recipient''),
                                            GetAccountInfo ''Mint/Recipient'']\<rparr>)"
    using failing by (simp_all add: example_facts)
  have start: "logs mintSelected = []" "payerAta mintSelected = None"
    by (simp_all add: example_defs)
  show ?thesis
    using sent by (simp add: payer recipient start)
qed

text \<open>
  C10. When the recipient field is empty, or the amount field is empty, is not a
  number or is the number 0, the transfer handler only logs
  \<^verbatim>\<open>Provide recipient and amount\<close>: the state is otherwise unchanged and no call (no
  key parsing, no address derivation, no network call) is made; the instruction data is
  not built on this path. The run time is taken to read the text \<^verbatim>\<open>0\<close> as the
  number 0.
\<close>

theorem transfer_needs_recipient_and_amount:
  assumes "Number w ''0'' = Integral 0"
    and "recipientPubkey2 = [] \<or> transferAmount = [] \<or> Number w transferAmount = NaN
           \<or> Number w transferAmount = Integral 0"
  shows "transferWithFee w wal recipientPubkey2 transferAmount s
           = (Inr (), s\<lparr>logs := take 20 (''Provide recipient and amount'' # logs s)\<rparr>)
         \<and> newCalls s (snd (transferWithFee w wal recipientPubkey2 transferAmount s)) = []"
proof -
  have "trim recipientPubkey2 = [] \<or> transferAmount = [] \<or> Number w transferAmount = NaN
           \<or> Number w transferAmount = Integral 0"
    using assms(2) by (auto simp: trim_def)
  from transferWithFee_guard[OF assms(1) this] show ?thesis
    by (simp add: pushLog_def newCalls_def)
qed

theorem transfer_needs_recipient_and_amount_witness:
  "transferWithFee exampleWorld exampleWallet [] ''100000'' mintSelected
     = (Inr (), mintSelected\<lparr>logs := [''Provide recipient and amount'']\<rparr>)
   \<and> transferWithFee exampleWorld exampleWallet ''Recipient'' [] mintSelected
     = (Inr (), mintSelected\<lparr>logs := [''Provide recipient and amount'']\<rparr>)
   \<and> transferWithFee exampleWorld exampleWallet ''Recipient'' ''abc'' mintSelected
     = (Inr (), mintSelected\<lparr>logs := [''Provide recipient and amount'']\<rparr>)
   \<and> transferWithFee exampleWorld exampleWallet ''Recipient'' ''0'' mintSelected
     = (Inr (), mintSelected\<lparr>logs := [''Provide recipient and amount'']\<rparr>)
   \<and> calls (snd (transferWithFee exampleWorld exampleWallet ''Recipient'' ''0'' mintSelected)) = []"
proof -
  have zero: "Number exampleWorld ''0'' = Integral 0"
    and nan: "Number exampleWorld ''abc'' = NaN"
    and empty: "logs mintSelected = []" "calls mintSelected = []"
    by (simp_all add: example_defs)
  have "transferWithFee exampleWorld exampleWallet [] ''100000'' mintSelected
     = (Inr (), mintSelected\<lparr>logs := [''Provide recipient and amount'']\<rparr>)"
    using transfer_needs_recipient_and_amount[OF zero, of "[]" "''100000''" exampleWallet mintSelected]
    by (simp add: empty)
  moreover have "transferWithFee exampleWorld exampleWallet ''Recipient'' [] mintSelected
     = (Inr (), mintSelected\<lparr>logs := [''Provide recipient and amount'']\<rparr>)"
    using transfer_needs_recipient_and_amount[OF zero, of "''Recipient''" "[]" exampleWallet mintSelected]
    by (simp add: empty)
  moreover have "transferWithFee exampleWorld exampleWallet ''Recipient'' ''abc'' mintSelected
     = (Inr (), mintSelected\<lparr>logs := [''Provide recipient and amount'']\<rparr>)"
    using transfer_needs_recipient_and_amount[OF zero, of "''Recipient''" "''abc''" exampleWallet mintSelected]
    by (simp add: empty nan)
  moreover have "transferWithFee exampleWorld exampleWallet ''Recipient'' ''0'' mintSelected
     = (Inr (), mintSelected\<lparr>logs := [''Provide recipient and amount'']\<rparr>)"
    using transfer_needs_recipient_and_amount[OF zero, of "''Recipient''" "''0''" exampleWallet mintSelected]
    by (simp add: empty zero)
  ultimately show ?thesis by (simp add: empty)
qed

section \<open>The fee field\<close>




lemma component_data:
  "transferCheckedWithFeeData (Integral 100000) 6 (Integral 0)
     = Inr [26, 1, 160, 134, 1, 0, 0, 0, 0, 0, 6, 0, 0, 0, 0, 0, 0, 0, 0]"
  by (simp add: transferCheckedWithFeeData_def u64ToBufferLE_def writeBigUInt64LE_def le_bytes_8)

lemma start_facts:
  "logs mintSelected = []" "calls mintSelected = []" "payerAta mintSelected = None"
  "selectedMint mintSelected = Some ''Mint''" "selectedMint initialState = None"
  "payerAta initialState = None" "logs initialState = []" "calls initialState = []"
  by (simp_all add: mintSelected_def initialState_def)

lemma example_transfer:
  "transferWithFee exampleWorld exampleWallet ''Recipient'' ''100000'' mintSelected =
     (Inr (),
      mintSelected\<lparr>logs := [''TransferWithFee succeeded: sig2''],
        calls := [NewPublicKey ''Recipient'',
                  GetAssociatedTokenAddress (Some ''Mint'') (Some ''Recipient''),
                  EncodeData (Integral 100000),
                  GetAssociatedTokenAddress (Some ''Mint'') (Some ''Payer''),
                  SendTransaction
                    [TransactionInstruction
                       [\<lparr>pubkey = Some ''Mint/Payer'', isSigner = False, isWritable = True\<rparr>,
                        \<lparr>pubkey = Some ''Mint'', isSigner = False, isWritable = False\<rparr>,
                        \<lparr>pubkey = Some ''Mint/Recipient'', isSigner = False, isWritable = True\<rparr>,
                        \<lparr>pubkey = Some ''Payer'', isSigner = True, isWritable = False\<rparr>]
                       [26, 1, 160, 134, 1, 0, 0, 0, 0, 0, 6, 0, 0, 0, 0, 0, 0, 0, 0]],
                  ConfirmTransaction ''sig2'']\<rparr>)"
  by (simp add: transferWithFee_def run_defs example_defs trim_def isSpace_def component_data)




section \<open>Preconditions\<close>

text \<open>
  C3, as the spec states it, fails on the component. \<^verbatim>\<open>mintToPayer\<close> answers a missing
  mint and a missing payer account with the same log entry. And with a wallet and a
  mint, but no payer account recorded and no account at either address, the button of
  the transfer is enabled and its handler builds the instruction, submits it and waits
  for its confirmation.
\<close>

theorem preconditions_counterexample:
  "selectedMint initialState = None \<and> selectedMint mintSelected = Some ''Mint''
   \<and> payerAta mintSelected = None
   \<and> mintToPayer exampleWorld exampleWallet None initialState
       = (Inr (), initialState\<lparr>logs := [''Missing mint or payer ATA'']\<rparr>)
   \<and> mintToPayer exampleWorld exampleWallet None mintSelected
       = (Inr (), mintSelected\<lparr>logs := [''Missing mint or payer ATA'']\<rparr>)
   \<and> disabled exampleWallet mintSelected (TransferWithFee ''Recipient'' ''100000'') = False
   \<and> getAccountInfo exampleWorld ''Mint/Payer'' = Inr None
   \<and> getAccountInfo exampleWorld ''Mint/Recipient'' = Inr None
   \<and> filter network (newCalls mintSelected
         (snd (transferWithFee exampleWorld exampleWallet ''Recipient'' ''100000'' mintSelected)))
       = [SendTransaction
            [TransactionInstruction
               [\<lparr>pubkey = Some ''Mint/Payer'', isSigner = False, isWritable = True\<rparr>,
                \<lparr>pubkey = Some ''Mint'', isSigner = False, isWritable = False\<rparr>,
                \<lparr>pubkey = Some ''Mint/Recipient'', isSigner = False, isWritable = True\<rparr>,
                \<lparr>pubkey = Some ''Payer'', isSigner = True, isWritable = False\<rparr>]
               [26, 1, 160, 134, 1, 0, 0, 0, 0, 0, 6, 0, 0, 0, 0, 0, 0, 0, 0]],
          ConfirmTransaction ''sig2'']"
proof -
  have mint: "mintToPayer exampleWorld exampleWallet None initialState
       = (Inr (), initialState\<lparr>logs := [''Missing mint or payer ATA'']\<rparr>)"
    "mintToPayer exampleWorld exampleWallet None mintSelected
       = (Inr (), mintSelected\<lparr>logs := [''Missing mint or payer ATA'']\<rparr>)"
    by (simp_all add: mintToPayer_def run_defs start_facts)
  have wallet: "connected exampleWallet"
    by (simp add: exampleWallet_def)
  show ?thesis
    by (simp add: mint wallet example_transfer newCalls_def start_facts example_facts)
qed

text \<open>
  C3, amended. The callbacks test what they need before any call, and a failed test
  only pushes a log entry: \<^verbatim>\<open>Wallet not connected\<close> when the wallet has no key
  (\<^verbatim>\<open>loadProgram\<close>, both token creations, and \<^verbatim>\<open>createPayerAta\<close> and
  \<^verbatim>\<open>mintToPayer\<close> after their other tests), \<^verbatim>\<open>No mint selected\<close>
  (\<^verbatim>\<open>createPayerAta\<close>, the withdrawal), \<^verbatim>\<open>Missing mint or payer ATA\<close>
  (\<^verbatim>\<open>mintToPayer\<close>, for either of the two), \<^verbatim>\<open>No payer ATA\<close>
  (\<^verbatim>\<open>refreshPayerBalance\<close>). The other handlers are guarded by their buttons: a
  disabled button runs nothing and changes nothing.
\<close>

theorem preconditions_of_the_callbacks:
  "(publicKey wal = None \<longrightarrow>
      loadProgram w wal s = (Inr None, s\<lparr>logs := take 20 (''Wallet not connected'' # logs s)\<rparr>)
      \<and> createTaxedToken w wal s = pushLog ''Wallet not connected'' s
      \<and> createSoulboundToken w wal s = pushLog ''Wallet not connected'' s)
   \<and> (selectedMint s = None \<longrightarrow>
      createPayerAta w wal s = pushLog ''No mint selected'' s
      \<and> withdrawWithheld w wal v s = pushLog ''No mint selected'' s)
   \<and> (selectedMint s = Some mint \<and> publicKey wal = None \<longrightarrow>
      createPayerAta w wal s = pushLog ''Wallet not connected'' s)
   \<and> (selectedMint s = None \<or> payerAta s = None \<longrightarrow>
      mintToPayer w wal amount s = pushLog ''Missing mint or payer ATA'' s)
   \<and> (selectedMint s = Some mint \<and> payerAta s = Some ata \<and> publicKey wal = None \<longrightarrow>
      mintToPayer w wal amount s = pushLog ''Wallet not connected'' s)
   \<and> (payerAta s = None \<longrightarrow> refreshPayerBalance w s = pushLog ''No payer ATA'' s)
   \<and> (disabled wal s a \<longrightarrow> click w wal a s = (Inr (), s))
   \<and> pushLog str s = (Inr (), s\<lparr>logs := take 20 (str # logs s)\<rparr>)"
proof (intro conjI impI; (elim conjE)?)
  assume "publicKey wal = None"
  then show "loadProgram w wal s = (Inr None, s\<lparr>logs := take 20 (''Wallet not connected'' # logs s)\<rparr>)"
    and "createTaxedToken w wal s = pushLog ''Wallet not connected'' s"
    and "createSoulboundToken w wal s = pushLog ''Wallet not connected'' s"
    by (simp_all add: loadProgram_def createTaxedToken_def createSoulboundToken_def run_defs)
next
  assume "selectedMint s = None"
  then show "createPayerAta w wal s = pushLog ''No mint selected'' s"
    and "withdrawWithheld w wal v s = pushLog ''No mint selected'' s"
    by (simp_all add: createPayerAta_def withdrawWithheld_def run_defs)
next
  assume "selectedMint s = Some mint" "publicKey wal = None"
  then show "createPayerAta w wal s = pushLog ''Wallet not connected'' s"
    by (simp add: createPayerAta_def run_defs)
next
  assume "selectedMint s = None \<or> payerAta s = None"
  then show "mintToPayer w wal amount s = pushLog ''Missing mint or payer ATA'' s"
    by (auto simp: mintToPayer_def run_defs split: option.splits)
next
  assume "selectedMint s = Some mint" "payerAta s = Some ata" "publicKey wal = None"
  then show "mintToPayer w wal amount s = pushLog ''Wallet not connected'' s"
    by (simp add: mintToPayer_def run_defs)
next
  assume "payerAta s = None"
  then show "refreshPayerBalance w s = pushLog ''No payer ATA'' s"
    by (simp add: refreshPayerBalance_def run_defs)
next
  assume "disabled wal s a"
  then show "click w wal a s = (Inr (), s)"
    by (simp add: click_def)
next
  show "pushLog str s = (Inr (), s\<lparr>logs := take 20 (str # logs s)\<rparr>)"
    by (simp add: pushLog_def)
qed

theorem preconditions_of_the_callbacks_witness:
  "loadProgram exampleWorld noWallet initialState
     = (Inr None, initialState\<lparr>logs := [''Wallet not connected'']\<rparr>)
   \<and> createTaxedToken exampleWorld noWallet initialState
     = (Inr (), initialState\<lparr>logs := [''Wallet not connected'']\<rparr>)
   \<and> createPayerAta exampleWorld noWallet initialState
     = (Inr (), initialState\<lparr>logs := [''No mint selected'']\<rparr>)
   \<and> createPayerAta exampleWorld noWallet accountReady
     = (Inr (), accountReady\<lparr>logs := [''Wallet not connected'']\<rparr>)
   \<and> mintToPayer exampleWorld noWallet None initialState
     = (Inr (), initialState\<lparr>logs := [''Missing mint or payer ATA'']\<rparr>)
   \<and> mintToPayer exampleWorld noWallet None accountReady
     = (Inr (), accountReady\<lparr>logs := [''Wallet not connected'']\<rparr>)
   \<and> refreshPayerBalance exampleWorld initialState
     = (Inr (), initialState\<lparr>logs := [''No payer ATA'']\<rparr>)
   \<and> click exampleWorld noWallet (TransferWithFee ''Recipient'' ''100000'') initialState
     = (Inr (), initialState)"
proof -
  have ready: "selectedMint accountReady = Some ''Mint''" "payerAta accountReady = Some ''Mint/Payer''"
    "logs accountReady = []"
    by (simp_all add: accountReady_def mintSelected_def initialState_def)
  have none: "publicKey noWallet = None" "connected noWallet = False"
    by (simp_all add: noWallet_def)
  note first = preconditions_of_the_callbacks[where w = exampleWorld and wal = noWallet
      and s = initialState and amount = None
      and a = "TransferWithFee ''Recipient'' ''100000''" and str = "[]"]
  note second = preconditions_of_the_callbacks[where w = exampleWorld and wal = noWallet
      and s = accountReady and mint = "''Mint''" and ata = "''Mint/Payer''" and amount = None
      and a = "TransferWithFee ''Recipient'' ''100000''" and str = "[]"]
  have a: "loadProgram exampleWorld noWallet initialState
     = (Inr None, initialState\<lparr>logs := [''Wallet not connected'']\<rparr>)"
    "createTaxedToken exampleWorld noWallet initialState
     = (Inr (), initialState\<lparr>logs := [''Wallet not connected'']\<rparr>)"
    "createPayerAta exampleWorld noWallet initialState
     = (Inr (), initialState\<lparr>logs := [''No mint selected'']\<rparr>)"
    "mintToPayer exampleWorld noWallet None initialState
     = (Inr (), initialState\<lparr>logs := [''Missing mint or payer ATA'']\<rparr>)"
    "refreshPayerBalance exampleWorld initialState
     = (Inr (), initialState\<lparr>logs := [''No payer ATA'']\<rparr>)"
    "click exampleWorld noWallet (TransferWithFee ''Recipient'' ''100000'') initialState
     = (Inr (), initialState)"
    using first by (simp_all add: none start_facts pushLog_def)
  have b: "createPayerAta exampleWorld noWallet accountReady
     = (Inr (), accountReady\<lparr>logs := [''Wallet not connected'']\<rparr>)"
    "mintToPayer exampleWorld noWallet None accountReady
     = (Inr (), accountReady\<lparr>logs := [''Wallet not connected'']\<rparr>)"
    using second by (simp_all add: none ready pushLog_def)
  show ?thesis using a b by simp
qed

section \<open>When the tracked state changes\<close>












end
